theory Spec2Isabelle
  imports Complex_Main
begin

section \<open>Errors and tensors\<close>

text \<open>
  The source raises no exception of its own; every failure comes from Python list
  indexing (\<open>IndexError\<close>) or from the tensor runtime, which raises a \<open>RuntimeError\<close>
  whose message names the cause (\<open>TypeError\<close> stands for calling an encoder on
  \<open>None\<close>). The three causes that the modelled code can reach are
  kept apart: a size mismatch (\<open>ShapeError\<close>), concatenating an empty list of tensors
  (\<open>EmptyCat\<close>) and a negative size at allocation (\<open>NegativeSize\<close>).
\<close>

datatype error = IndexError | TypeError | ShapeError | EmptyCat | NegativeSize

definition ebind :: "error + 'a \<Rightarrow> ('a \<Rightarrow> error + 'b) \<Rightarrow> error + 'b" where
  "ebind r f = (case r of Inl e \<Rightarrow> Inl e | Inr v \<Rightarrow> f v)"

text \<open>
  A batch is a two-dimensional tensor \<open>(B, ncols)\<close>: the column count is stored (a batch
  of zero rows still has a width) and the data is the list of the \<open>B\<close> rows. Entries are
  real numbers: rounding of the runtime's 32-bit floats is not part of the model.
\<close>

datatype tensor = Tensor (ncols: nat) (rows: "real list list")

definition wf_tensor :: "tensor \<Rightarrow> bool" where
  "wf_tensor t = list_all (\<lambda>r. length r = ncols t) (rows t)"

definition shape :: "tensor \<Rightarrow> nat \<times> nat" where
  "shape t = (length (rows t), ncols t)"

text \<open>An elementwise function of a tensor (\<open>torch.sin(t)\<close>, \<open>freq * t\<close>, an activation).\<close>

definition tmap :: "(real \<Rightarrow> real) \<Rightarrow> tensor \<Rightarrow> tensor" where
  "tmap f t = Tensor (ncols t) (map (map f) (rows t))"

text \<open>
  \<open>torch.cat(ts, -1)\<close>: an empty list is refused, the row counts must agree, and row \<open>b\<close>
  of the result is the rows \<open>b\<close> of the arguments one after the other.
\<close>

definition cat :: "tensor list \<Rightarrow> error + tensor" where
  "cat ts =
     (case ts of
        [] \<Rightarrow> Inl EmptyCat
      | t # ts' \<Rightarrow>
          if list_all (\<lambda>u. length (rows u) = length (rows t)) ts'
          then Inr (Tensor (sum_list (map ncols ts))
                      (map (\<lambda>b. concat (map (\<lambda>u. rows u ! b) ts)) [0..<length (rows t)]))
          else Inl ShapeError)"

text \<open>
  \<open>torch.split(x, [a, b], dim=-1)\<close>: the two sizes must be non-negative and add up to the
  width of \<open>x\<close>.
\<close>

definition split :: "tensor \<Rightarrow> int \<Rightarrow> int \<Rightarrow> error + tensor \<times> tensor" where
  "split x a b =
     (if a < 0 \<or> b < 0 \<or> a + b \<noteq> int (ncols x) then Inl ShapeError
      else Inr (Tensor (nat a) (map (take (nat a)) (rows x)),
                Tensor (nat b) (map (drop (nat a)) (rows x))))"

text \<open>
  \<open>torch.linspace(start, stop, steps)\<close>: \<open>steps\<close> equally spaced values from \<open>start\<close> to
  \<open>stop\<close>; one step gives \<open>[start]\<close>, a negative count is refused.
\<close>

definition linspace :: "real \<Rightarrow> real \<Rightarrow> int \<Rightarrow> error + real list" where
  "linspace start stop steps =
     (if steps < 0 then Inl NegativeSize
      else if steps = 1 then Inr [start]
      else Inr (map (\<lambda>i. start + real i * ((stop - start) / (real_of_int steps - 1)))
                  [0..<nat steps]))"

section \<open>Siren and Mapping\<close>

definition Siren_forward :: "tensor \<Rightarrow> tensor" where
  "Siren_forward input = tmap (\<lambda>v. sin (30 * v)) input"

record mapping_t =
  N_freqs :: int
  in_channels :: int
  funcs :: "(real \<Rightarrow> real) list"
  out_channels :: int
  freq_bands :: "real list"

definition Mapping_init :: "int \<Rightarrow> int \<Rightarrow> bool \<Rightarrow> error + mapping_t" where
  "Mapping_init mapping_size in_size logscale =
     ebind (if logscale
            then ebind (linspace 0 (real_of_int (mapping_size - 1)) mapping_size)
                   (\<lambda>es. Inr (map (\<lambda>e. 2 powr e) es))
            else linspace 1 (2 powr real_of_int (mapping_size - 1)) mapping_size)
       (\<lambda>bands. Inr \<lparr>N_freqs = mapping_size, in_channels = in_size, funcs = [sin, cos],
                     out_channels = in_size * (int (length [sin, cos :: real \<Rightarrow> real]) * mapping_size + 1),
                     freq_bands = bands\<rparr>)"

text \<open>
  The two loops of \<open>Mapping.forward\<close> append \<open>func(freq * x)\<close> to \<open>out\<close>, the frequency in
  the outer loop and the function in the inner one; \<open>out\<close> starts empty (the line that
  put \<open>x\<close> first is commented out in the source).
\<close>

definition Mapping_forward :: "mapping_t \<Rightarrow> tensor \<Rightarrow> error + tensor" where
  "Mapping_forward m x =
     cat (concat (map (\<lambda>freq. map (\<lambda>func. tmap func (tmap (\<lambda>v. freq * v) x)) (funcs m))
                    (freq_bands m)))"


section \<open>Python lists\<close>

text \<open>\<open>xs[i]\<close>: a negative index counts from the end, an index out of range raises.\<close>

definition py_nth :: "'a list \<Rightarrow> int \<Rightarrow> error + 'a" where
  "py_nth xs i =
     (if 0 \<le> i \<and> i < int (length xs) then Inr (xs ! nat i)
      else if i < 0 \<and> - int (length xs) \<le> i then Inr (xs ! nat (int (length xs) + i))
      else Inl IndexError)"

text \<open>A list comprehension whose body can raise: the first failure ends it.\<close>

fun emap :: "('a \<Rightarrow> error + 'b) \<Rightarrow> 'a list \<Rightarrow> error + 'b list" where
  "emap f [] = Inr []"
| "emap f (x # xs) = ebind (f x) (\<lambda>y. ebind (emap f xs) (\<lambda>ys. Inr (y # ys)))"

section \<open>Layers of the runtime\<close>

text \<open>
  A fully connected layer \<open>torch.nn.Linear(in_features, out_features)\<close>. Its learnable
  parameters are a matrix \<open>weight j i\<close> (output \<open>j\<close>, input \<open>i\<close>) and a vector \<open>bias j\<close>; only
  the entries below the two sizes are read. The constructor refuses a negative size. The
  values it draws at random are an argument of the model (\<open>weights\<close>), so a statement for
  all weights covers the initial ones and any later update by an optimiser.
\<close>

type_synonym weights = "(nat \<Rightarrow> nat \<Rightarrow> real) \<times> (nat \<Rightarrow> real)"

record linear_t =
  in_features :: nat
  out_features :: nat
  weight :: "nat \<Rightarrow> nat \<Rightarrow> real"
  bias :: "nat \<Rightarrow> real"

definition Linear_init :: "weights \<Rightarrow> int \<Rightarrow> int \<Rightarrow> error + linear_t" where
  "Linear_init w n_in n_out =
     (if n_in < 0 \<or> n_out < 0 then Inl NegativeSize
      else Inr \<lparr>in_features = nat n_in, out_features = nat n_out,
                weight = fst w, bias = snd w\<rparr>)"

definition Linear_forward :: "linear_t \<Rightarrow> tensor \<Rightarrow> error + tensor" where
  "Linear_forward l x =
     (if ncols x \<noteq> in_features l then Inl ShapeError
      else Inr (Tensor (out_features l)
                  (map (\<lambda>r. map (\<lambda>j. sum_list (map (\<lambda>i. r ! i * weight l j i)
                                                  [0..<in_features l]) + bias l j)
                               [0..<out_features l])
                       (rows x))))"

definition relu :: "real \<Rightarrow> real" where
  "relu v = max 0 v"

text \<open>\<open>nn.Softplus()\<close> with its defaults \<open>beta = 1\<close>, \<open>threshold = 20\<close>.\<close>

definition softplus :: "real \<Rightarrow> real" where
  "softplus v = (if v > 20 then v else ln (1 + exp v))"

definition sigmoid :: "real \<Rightarrow> real" where
  "sigmoid v = 1 / (1 + exp (- v))"

datatype module = Linear linear_t | ReLU | Siren | Softplus | Sigmoid | Mapping mapping_t

fun module_forward :: "module \<Rightarrow> tensor \<Rightarrow> error + tensor" where
  "module_forward (Linear l) x = Linear_forward l x"
| "module_forward ReLU x = Inr (tmap relu x)"
| "module_forward Siren x = Inr (Siren_forward x)"
| "module_forward Softplus x = Inr (tmap softplus x)"
| "module_forward Sigmoid x = Inr (tmap sigmoid x)"
| "module_forward (Mapping m) x = Mapping_forward m x"

text \<open>\<open>torch.nn.Sequential\<close>: the modules one after the other.\<close>

fun Sequential_forward :: "module list \<Rightarrow> tensor \<Rightarrow> error + tensor" where
  "Sequential_forward [] x = Inr x"
| "Sequential_forward (m # ms) x = ebind (module_forward m x) (Sequential_forward ms)"

section \<open>NeRF: construction\<close>

text \<open>The arguments of \<open>NeRF.__init__\<close>.\<close>

record nerf_args =
  layers_arg :: int
  feat_arg :: int
  input_sizes_arg :: "int list"
  skips_arg :: "int list"
  siren_arg :: bool
  mapping_arg :: bool
  mapping_sizes_arg :: "int list"

text \<open>The values of the learnable parameters, one pair per \<open>Linear\<close> the constructor makes.\<close>

record params =
  fc_w :: "nat \<Rightarrow> weights"
  sigma_w :: weights
  feats_w :: weights
  rgb_w1 :: weights
  rgb_w2 :: weights

record nerf =
  layers :: int
  skips :: "int list"
  mapping :: "module list"
  input_sizes :: "int list"
  fc_net :: "module list"
  sigma_from_xyz :: "module list"
  feats_from_xyz :: "module list"
  rgb_from_xyzdir :: "module list"

text \<open>
  The loop \<open>for i in range(1, layers)\<close> of the constructor, appending a \<open>Linear\<close> and the
  activation to \<open>fc_layers\<close> at each index.
\<close>

fun fc_loop :: "params \<Rightarrow> int list \<Rightarrow> int \<Rightarrow> int \<Rightarrow> module \<Rightarrow> int list \<Rightarrow> module list
                 \<Rightarrow> error + module list" where
  "fc_loop \<theta> sk feat in0 nl [] fc_layers = Inr fc_layers"
| "fc_loop \<theta> sk feat in0 nl (i # is) fc_layers =
     ebind (if i \<in> set sk then Linear_init (fc_w \<theta> (nat i)) (feat + in0) feat
            else Linear_init (fc_w \<theta> (nat i)) feat feat)
       (\<lambda>l. fc_loop \<theta> sk feat in0 nl is (fc_layers @ [Linear l, nl]))"

definition NeRF_init :: "nerf_args \<Rightarrow> params \<Rightarrow> error + nerf" where
  "NeRF_init a \<theta> =
     (let feat = feat_arg a;
          nl = (if siren_arg a then Siren else ReLU);
          pairs = zip (mapping_sizes_arg a) (input_sizes_arg a)
      in
      ebind (if mapping_arg a
             then ebind (emap (\<lambda>(map_sz, in_sz). Mapping_init map_sz in_sz True) pairs)
                    (\<lambda>ms. Inr (map Mapping ms,
                                map (\<lambda>(map_sz, in_sz). 2 * map_sz * in_sz) pairs))
             else Inr ([Siren, Siren], input_sizes_arg a))
        (\<lambda>(mapping', in_size).
      ebind (py_nth in_size 0) (\<lambda>in0.
      ebind (Linear_init (fc_w \<theta> 0) in0 feat) (\<lambda>l0.
      ebind (fc_loop \<theta> (skips_arg a) feat in0 nl [1..layers_arg a - 1] [Linear l0, nl])
        (\<lambda>fc_layers.
      ebind (Linear_init (sigma_w \<theta>) feat 1) (\<lambda>ls.
      ebind (Linear_init (feats_w \<theta>) feat feat) (\<lambda>lf.
      ebind (py_nth in_size 1) (\<lambda>in1.
      ebind (Linear_init (rgb_w1 \<theta>) (feat + in1) (feat div 2)) (\<lambda>lr1.
      ebind (Linear_init (rgb_w2 \<theta>) (feat div 2) 3) (\<lambda>lr2.
        Inr \<lparr>layers = layers_arg a, skips = skips_arg a, mapping = mapping',
             input_sizes = input_sizes_arg a, fc_net = fc_layers,
             sigma_from_xyz = [Linear ls, Softplus],
             feats_from_xyz = [Linear lf, nl],
             rgb_from_xyzdir = [Linear lr1, nl, Linear lr2, Sigmoid]\<rparr>))))))))))"

section \<open>NeRF: the forward pass\<close>

text \<open>
  The loop \<open>for i in range(self.layers)\<close> of \<open>forward\<close>: at an index of \<open>skips\<close> the encoded
  input is put in front of the running activation, then the modules \<open>2*i\<close> and \<open>2*i + 1\<close>
  of \<open>fc_net\<close> are applied.
\<close>

fun trunk :: "nerf \<Rightarrow> tensor \<Rightarrow> int list \<Rightarrow> tensor \<Rightarrow> error + tensor" where
  "trunk M input_xyz [] xyz = Inr xyz"
| "trunk M input_xyz (i # is) xyz =
     ebind (if i \<in> set (skips M) then cat [input_xyz, xyz] else Inr xyz) (\<lambda>h.
     ebind (py_nth (fc_net M) (2 * i)) (\<lambda>m1.
     ebind (module_forward m1 h) (\<lambda>h1.
     ebind (py_nth (fc_net M) (2 * i + 1)) (\<lambda>m2.
     ebind (module_forward m2 h1) (\<lambda>h2.
       trunk M input_xyz is h2)))))"

text \<open>
  The shared features: the xyz encoder, then the trunk over \<open>range(self.layers)\<close>.
\<close>

definition shared_features :: "nerf \<Rightarrow> tensor \<Rightarrow> error + tensor" where
  "shared_features M input_xyz =
     ebind (py_nth (mapping M) 0) (\<lambda>enc.
     ebind (module_forward enc input_xyz) (\<lambda>e.
       trunk M e [0..layers M - 1] e))"

definition NeRF_forward :: "nerf \<Rightarrow> tensor \<Rightarrow> tensor option \<Rightarrow> bool \<Rightarrow> error + tensor" where
  "NeRF_forward M x input_dir sigma_only =
     ebind (if \<not> sigma_only then ebind (py_nth (input_sizes M) 1) (\<lambda>d. Inr (d > 0))
            else Inr False) (\<lambda>both.
     ebind (if both
            then ebind (py_nth (input_sizes M) 0) (\<lambda>a.
                 ebind (py_nth (input_sizes M) 1) (\<lambda>b.
                 ebind (split x a b) (\<lambda>(xyz, dir). Inr (xyz, Some dir))))
            else Inr (x, input_dir)) (\<lambda>(input_xyz, input_dir').
     ebind (shared_features M input_xyz) (\<lambda>shared.
     ebind (Sequential_forward (sigma_from_xyz M) shared) (\<lambda>sigma.
       if sigma_only then Inr sigma
       else
     ebind (Sequential_forward (feats_from_xyz M) shared) (\<lambda>xyz_features.
     ebind (py_nth (input_sizes M) 1) (\<lambda>d.
     ebind (if d > 0
            then ebind (py_nth (mapping M) 1) (\<lambda>enc.
                 ebind (case input_dir' of None \<Rightarrow> Inl TypeError
                        | Some dir \<Rightarrow> module_forward enc dir) (\<lambda>e.
                   cat [xyz_features, e]))
            else Inr xyz_features) (\<lambda>input_xyzdir.
     ebind (Sequential_forward (rgb_from_xyzdir M) input_xyzdir) (\<lambda>rgb.
       cat [rgb, sigma]))))))))"

text \<open>
  \<open>forward\<close> assigns no attribute of \<open>self\<close> and applies no in-place operation to a
  parameter, so a call, seen as a step on the object, returns the object as it was
  together with the result (or the error).
\<close>

definition NeRF_call :: "nerf \<Rightarrow> tensor \<Rightarrow> tensor option \<Rightarrow> bool \<Rightarrow> (error + tensor) \<times> nerf" where
  "NeRF_call M x input_dir sigma_only = (NeRF_forward M x input_dir sigma_only, M)"


section \<open>Notions used by the statements\<close>

text \<open>A tensor of shape \<open>(B, w)\<close> all of whose rows have the stored width.\<close>

definition has_shape :: "tensor \<Rightarrow> nat \<Rightarrow> nat \<Rightarrow> bool" where
  "has_shape t B w = (length (rows t) = B \<and> ncols t = w \<and> wf_tensor t)"

text \<open>
  The local \<open>in_size\<close> of the constructor: the widths of the two branches after encoding.
\<close>

definition in_size_of :: "nerf_args \<Rightarrow> int list" where
  "in_size_of a =
     (if mapping_arg a
      then map (\<lambda>(map_sz, in_sz). 2 * map_sz * in_sz) (zip (mapping_sizes_arg a) (input_sizes_arg a))
      else input_sizes_arg a)"

definition act_of :: "nerf_args \<Rightarrow> module" where
  "act_of a = (if siren_arg a then Siren else ReLU)"

text \<open>The \<open>Linear\<close> that a successful \<open>Linear_init\<close> returns.\<close>

definition mk_linear :: "weights \<Rightarrow> int \<Rightarrow> int \<Rightarrow> linear_t" where
  "mk_linear w n_in n_out =
     \<lparr>in_features = nat n_in, out_features = nat n_out, weight = fst w, bias = snd w\<rparr>"

text \<open>The \<open>Linear\<close> of trunk layer \<open>i\<close> as the constructor sizes it.\<close>

definition trunk_linear :: "params \<Rightarrow> nerf_args \<Rightarrow> int \<Rightarrow> linear_t" where
  "trunk_linear \<theta> a i =
     mk_linear (fc_w \<theta> (nat i))
       (if i = 0 then in_size_of a ! 0
        else if i \<in> set (skips_arg a) then feat_arg a + in_size_of a ! 0
        else feat_arg a)
       (feat_arg a)"

text \<open>
  Arguments with two non-negative input sizes, a non-negative feature width and, when the
  positional encoding is on, two non-negative frequency counts. Nothing is asked of
  \<open>layers\<close> or \<open>skips\<close>.
\<close>

definition sizes_ok :: "nerf_args \<Rightarrow> bool" where
  "sizes_ok a =
     (0 \<le> feat_arg a \<and> length (input_sizes_arg a) = 2 \<and> list_all (\<lambda>n. 0 \<le> n) (input_sizes_arg a)
      \<and> (if mapping_arg a
          then length (mapping_sizes_arg a) = 2 \<and> list_all (\<lambda>n. 0 \<le> n) (mapping_sizes_arg a)
          else True))"

text \<open>
  Arguments for which the forward pass is defined: at least one layer, no skip at layer 0,
  and at least one frequency for each encoder that the forward pass runs.
\<close>

definition well_configured :: "nerf_args \<Rightarrow> bool" where
  "well_configured a =
     (sizes_ok a \<and> 1 \<le> layers_arg a \<and> 0 \<notin> set (skips_arg a)
      \<and> (if mapping_arg a
          then 1 \<le> mapping_sizes_arg a ! 0
               \<and> (if 0 < input_sizes_arg a ! 1 then 1 \<le> mapping_sizes_arg a ! 1 else True)
          else True))"
text \<open>The two branch encoders that the constructor stores in \<open>self.mapping\<close>.\<close>

definition encoders :: "nerf_args \<Rightarrow> module list \<Rightarrow> bool" where
  "encoders a encs =
     (if mapping_arg a
      then \<exists>m0 m1. encs = [Mapping m0, Mapping m1]
             \<and> Mapping_init (mapping_sizes_arg a ! 0) (input_sizes_arg a ! 0) True = Inr m0
             \<and> Mapping_init (mapping_sizes_arg a ! 1) (input_sizes_arg a ! 1) True = Inr m1
      else encs = [Siren, Siren])"

text \<open>
  The part of the input that the xyz branch receives when colour is asked for: the first
  \<open>input_sizes[0]\<close> columns when there is a direction branch, the whole input otherwise.
\<close>

definition xyz_of :: "nerf_args \<Rightarrow> tensor \<Rightarrow> tensor" where
  "xyz_of a x =
     (if 0 < input_sizes_arg a ! 1
      then Tensor (nat (input_sizes_arg a ! 0)) (map (take (nat (input_sizes_arg a ! 0))) (rows x))
      else x)"

section \<open>Configurations of \<open>config.py\<close>\<close>

text \<open>
  The fields of \<open>DefaultConfig\<close> and \<open>SNerfBasicConfig\<close> that the constructor of the
  model consumes, and the override of \<open>load_config\<close> for the \<open>blender\<close> dataset
  (\<open>conf.input_sizes[1] = 3\<close>).
\<close>

definition DefaultConfig :: nerf_args where
  "DefaultConfig =
     \<lparr>layers_arg = 8, feat_arg = 256, input_sizes_arg = [3, 0], skips_arg = [4],
      siren_arg = False, mapping_arg = True, mapping_sizes_arg = [10, 4]\<rparr>"

definition SNerfBasicConfig :: nerf_args where
  "SNerfBasicConfig =
     \<lparr>layers_arg = 8, feat_arg = 100, input_sizes_arg = [3, 0], skips_arg = [],
      siren_arg = True, mapping_arg = False, mapping_sizes_arg = [10, 4]\<rparr>"

definition blender :: "nerf_args \<Rightarrow> nerf_args" where
  "blender conf = conf\<lparr>input_sizes_arg := (input_sizes_arg conf)[1 := 3]\<rparr>"

text \<open>
  A small set of arguments for a model that can be evaluated by hand: two layers of two
  features, one xyz and one direction column, a skip at layer 1, no positional encoding.
\<close>

definition tiny_args :: nerf_args where
  "tiny_args =
     \<lparr>layers_arg = 2, feat_arg = 2, input_sizes_arg = [1, 1], skips_arg = [1],
      siren_arg = False, mapping_arg = False, mapping_sizes_arg = [10, 4]\<rparr>"

text \<open>Parameters that are all zero, for concrete instances.\<close>

definition zero_weights :: weights where
  "zero_weights = ((\<lambda>j i. 0), (\<lambda>j. 0))"

definition zero_params :: params where
  "zero_params =
     \<lparr>fc_w = (\<lambda>i. zero_weights), sigma_w = zero_weights, feats_w = zero_weights,
      rgb_w1 = zero_weights, rgb_w2 = zero_weights\<rparr>"

text \<open>The model that the constructor returns for \<open>tiny_args\<close> and zero parameters.\<close>

definition zero_linear :: "nat \<Rightarrow> nat \<Rightarrow> linear_t" where
  "zero_linear n_in n_out =
     \<lparr>in_features = n_in, out_features = n_out, weight = (\<lambda>j i. 0), bias = (\<lambda>j. 0)\<rparr>"

definition tiny_model :: nerf where
  "tiny_model =
     \<lparr>layers = 2, skips = [1], mapping = [Siren, Siren], input_sizes = [1, 1],
      fc_net = [Linear (zero_linear 1 2), ReLU, Linear (zero_linear 3 2), ReLU],
      sigma_from_xyz = [Linear (zero_linear 2 1), Softplus],
      feats_from_xyz = [Linear (zero_linear 2 2), ReLU],
      rgb_from_xyzdir = [Linear (zero_linear 3 1), ReLU, Linear (zero_linear 1 3), Sigmoid]\<rparr>"

section \<open>Basic facts\<close>

lemma ebind_Inr [simp]: "ebind (Inr v) f = f v"
  by (simp add: ebind_def)

lemma ebind_Inl [simp]: "ebind (Inl e) f = Inl e"
  by (simp add: ebind_def)

lemma ebind_eq_Inr: "ebind r f = Inr y \<longleftrightarrow> (\<exists>v. r = Inr v \<and> f v = Inr y)"
  by (cases r) simp_all

lemma linspace_unit: "1 \<le> N \<Longrightarrow> linspace 0 (real_of_int N - 1) N = Inr (map real [0..<nat N])"
proof -
  assume N: "1 \<le> N"
  show ?thesis
  proof (cases "N = 1")
    case True
    then show ?thesis by (simp add: linspace_def)
  next
    case False
    with N have "real_of_int N - 1 \<noteq> 0" by simp
    then show ?thesis using N False by (simp add: linspace_def)
  qed
qed

lemma log_bands:
  assumes "1 \<le> N"
  shows "map_sum id freq_bands (Mapping_init N c True) = Inr (map (\<lambda>k. 2 ^ k) [0..<nat N])"
  using assms by (simp add: Mapping_init_def linspace_unit powr_realpow)



lemma two_powr_pred: "1 \<le> N \<Longrightarrow> 2 powr (real_of_int N - 1) = 2 ^ (nat N - 1)"
proof -
  assume N: "1 \<le> N"
  then have eq: "real_of_int N - 1 = real (nat N - 1)" by linarith
  show ?thesis unfolding eq by (rule powr_realpow) simp
qed

lemma lin_bands:
  assumes "1 \<le> N"
  shows "map_sum id freq_bands (Mapping_init N c False) =
     Inr (if N = 1 then [1] else map (\<lambda>k. 1 + real k * ((2 ^ (nat N - 1) - 1) / (real_of_int N - 1))) [0..<nat N])"
  using assms by (simp add: Mapping_init_def linspace_def two_powr_pred)


lemma ncols_tmap [simp]: "ncols (tmap f t) = ncols t"
  by (simp add: tmap_def)

lemma rows_tmap [simp]: "rows (tmap f t) = map (map f) (rows t)"
  by (simp add: tmap_def)

lemma wf_tmap [simp]: "wf_tensor (tmap f t) = wf_tensor t"
  by (simp add: wf_tensor_def list_all_iff)

lemma shape_tmap [simp]: "shape (tmap f t) = shape t"
  by (simp add: shape_def)

lemma cat_ok:
  assumes "ts \<noteq> []" and "\<And>u. u \<in> set ts \<Longrightarrow> length (rows u) = n"
  shows "cat ts = Inr (Tensor (sum_list (map ncols ts))
                        (map (\<lambda>b. concat (map (\<lambda>u. rows u ! b) ts)) [0..<n]))"
proof (cases ts)
  case Nil
  with assms show ?thesis by simp
next
  case (Cons t ts')
  then have "length (rows t) = n" and "list_all (\<lambda>u. length (rows u) = length (rows t)) ts'"
    using assms(2) by (simp_all add: list_all_iff)
  with Cons show ?thesis by (simp add: cat_def)
qed

lemma sorted_pow2: "sorted_wrt (<) (map (\<lambda>k. (2::real) ^ k) [0..<n])"
  by (simp add: sorted_wrt_map sorted_wrt_iff_nth_less)

lemma sorted_lin: "0 < d \<Longrightarrow> sorted_wrt (<) (map (\<lambda>k. 1 + real k * (d::real)) [0..<n])"
  by (simp add: sorted_wrt_map sorted_wrt_iff_nth_less)

lemma concat_concat_map: "concat (concat xss) = concat (map concat xss)"
  by (induction xss) simp_all

lemma sum_list_blocks:
  "sum_list (map ncols (concat (map (\<lambda>freq. map (\<lambda>func. tmap func (tmap (g freq) x)) fs) bs))) =
     length bs * (length fs * ncols x)"
  by (induction bs) (simp_all add: o_def sum_list_triv)

lemma Mapping_forward_rows:
  assumes "funcs m = fs" "freq_bands m \<noteq> []" "fs \<noteq> []"
  shows "Mapping_forward m x =
     Inr (Tensor (length (freq_bands m) * (length fs * ncols x))
           (map (\<lambda>r. concat (map (\<lambda>freq. concat (map (\<lambda>func. map (\<lambda>v. func (freq * v)) r) fs))
                                 (freq_bands m)))
                (rows x)))"
proof -
  let ?ts = "concat (map (\<lambda>freq. map (\<lambda>func. tmap func (tmap (\<lambda>v. freq * v) x)) fs) (freq_bands m))"
  have ne: "?ts \<noteq> []" using assms(2,3) by (cases "freq_bands m") auto
  have len: "\<And>u. u \<in> set ?ts \<Longrightarrow> length (rows u) = length (rows x)" by auto
  have w: "sum_list (map ncols ?ts) = length (freq_bands m) * (length fs * ncols x)"
    by (rule sum_list_blocks)
  have r: "map (\<lambda>b. concat (map (\<lambda>u. rows u ! b) ?ts)) [0..<length (rows x)] =
     map (\<lambda>r. concat (map (\<lambda>freq. concat (map (\<lambda>func. map (\<lambda>v. func (freq * v)) r) fs))
                                 (freq_bands m))) (rows x)"
    by (rule nth_equalityI) (simp_all add: map_concat o_def concat_concat_map)
  have "cat ?ts = Inr (Tensor (sum_list (map ncols ?ts))
                        (map (\<lambda>b. concat (map (\<lambda>u. rows u ! b) ?ts)) [0..<length (rows x)]))"
    using ne len by (rule cat_ok)
  then show ?thesis unfolding Mapping_forward_def assms(1) w r .
qed


lemma length_blocks:
  "length (concat (map (\<lambda>freq. map (f freq) r @ map (g freq) r) bs)) = length bs * (2 * length r)"
  by (induction bs) simp_all

lemma Mapping_init_fields:
  assumes "Mapping_init N c ls = Inr m"
  shows "funcs m = [sin, cos]" and "N_freqs m = N" and "in_channels m = c"
    and "out_channels m = c * (2 * N + 1)"
    and "map_sum id freq_bands (Mapping_init N c ls) = Inr (freq_bands m)"
  using assms by (auto simp: Mapping_init_def ebind_eq_Inr)

lemma Mapping_init_bands_eq:
  assumes "1 \<le> N" "Mapping_init N c ls = Inr m"
  shows "freq_bands m =
     (if ls then map (\<lambda>k. 2 ^ k) [0..<nat N]
      else if N = 1 then [1]
      else map (\<lambda>k. 1 + real k * ((2 ^ (nat N - 1) - 1) / (real_of_int N - 1))) [0..<nat N])"
proof -
  have b: "Inr (freq_bands m) = map_sum id freq_bands (Mapping_init N c ls)"
    using assms(2) by simp
  show ?thesis
  proof (cases ls)
    case True
    with b log_bands[OF assms(1), of c] show ?thesis by simp
  next
    case False
    with b lin_bands[OF assms(1), of c] show ?thesis by simp
  qed
qed

lemma Mapping_init_bands:
  assumes "1 \<le> N" "Mapping_init N c ls = Inr m"
  shows "length (freq_bands m) = nat N" and "sorted_wrt (<) (freq_bands m)"
proof -
  note b = Mapping_init_bands_eq[OF assms]
  show "length (freq_bands m) = nat N"
    using assms(1) by (simp add: b)
  show "sorted_wrt (<) (freq_bands m)"
  proof (cases "ls \<or> N = 1")
    case True
    then show ?thesis by (auto simp: b sorted_pow2)
  next
    case False
    with assms(1) have "2 \<le> nat N" by linarith
    then have "(2::real) ^ 1 \<le> 2 ^ (nat N - 1)"
      by (intro power_increasing) simp_all
    then have d: "0 < ((2::real) ^ (nat N - 1) - 1) / (real_of_int N - 1)"
      using assms(1) False by simp
    have "freq_bands m =
        map (\<lambda>k. 1 + real k * ((2 ^ (nat N - 1) - 1) / (real_of_int N - 1))) [0..<nat N]"
      using False unfolding b by simp
    then show ?thesis using sorted_lin[OF d] by simp
  qed
qed

section \<open>The frequency encoder\<close>

text \<open>
  Claim C1. For \<open>num_freqs \<ge> 1\<close> and \<open>in_channels \<ge> 1\<close>, the encoder maps a batch of shape
  \<open>(B, in_channels)\<close> to a batch of shape \<open>(B, in_channels * 2 * num_freqs)\<close>. Each output
  row is, for the frequency bands in their stored order (which is strictly ascending), the
  block \<open>sin (band * x)\<close> followed by the block \<open>cos (band * x)\<close> of the input row \<open>x\<close>.
\<close>

theorem Mapping_forward_shape_order:
  assumes "1 \<le> N" and "1 \<le> c" and "Mapping_init N c ls = Inr m"
    and "wf_tensor x" and "ncols x = nat c"
  shows "\<exists>out. Mapping_forward m x = Inr out
           \<and> shape out = (length (rows x), nat (c * 2 * N))
           \<and> wf_tensor out
           \<and> rows out = map (\<lambda>r. concat (map (\<lambda>freq. map (\<lambda>v. sin (freq * v)) r @
                                                        map (\<lambda>v. cos (freq * v)) r)
                                            (freq_bands m))) (rows x)
           \<and> length (freq_bands m) = nat N
           \<and> sorted_wrt (<) (freq_bands m)"
proof -
  have len: "length (freq_bands m) = nat N" and srt: "sorted_wrt (<) (freq_bands m)"
    using assms(1,3) by (rule Mapping_init_bands)+
  from len assms(1) have ne: "freq_bands m \<noteq> []" by auto
  have fs: "funcs m = [sin, cos]" using assms(3) by (rule Mapping_init_fields)
  have w0: "nat N * (2 * nat c) = nat (c * 2 * N)"
    using assms(1,2) by (simp add: nat_mult_distrib mult.commute)
  have w: "length (freq_bands m) * (length [sin, cos :: real \<Rightarrow> real] * ncols x) = nat (c * 2 * N)"
    using w0 by (simp add: len assms(5) mult_2)
  have fw: "Mapping_forward m x =
     Inr (Tensor (nat (c * 2 * N))
           (map (\<lambda>r. concat (map (\<lambda>freq. map (\<lambda>v. sin (freq * v)) r @
                                        map (\<lambda>v. cos (freq * v)) r) (freq_bands m)))
                (rows x)))"
    using Mapping_forward_rows[OF fs ne, of x] unfolding w by simp
  have "wf_tensor (Tensor (nat (c * 2 * N))
           (map (\<lambda>r. concat (map (\<lambda>freq. map (\<lambda>v. sin (freq * v)) r @
                                        map (\<lambda>v. cos (freq * v)) r) (freq_bands m)))
                (rows x)))"
    using assms(4) w0 by (simp add: wf_tensor_def list_all_iff length_blocks len assms(5))
  with fw len srt show ?thesis by (simp add: shape_def)
qed

theorem Mapping_forward_shape_order_witness:
  "(1::int) \<le> 2 \<and> (1::int) \<le> 1
   \<and> Mapping_init 2 1 True = Inr \<lparr>N_freqs = 2, in_channels = 1, funcs = [sin, cos],
                                  out_channels = 5, freq_bands = [1, 2]\<rparr>
   \<and> wf_tensor (Tensor 1 [[0], [0]]) \<and> ncols (Tensor 1 [[0], [0]]) = nat 1
   \<and> Mapping_forward \<lparr>N_freqs = 2, in_channels = 1, funcs = [sin, cos],
                        out_channels = 5, freq_bands = [1, 2]\<rparr> (Tensor 1 [[0], [0]])
       = Inr (Tensor 4 [[0, 1, 0, 1], [0, 1, 0, 1]])"
proof -
  have i: "Mapping_init 2 1 True = Inr \<lparr>N_freqs = 2, in_channels = 1, funcs = [sin, cos],
                                  out_channels = 5, freq_bands = [1, 2]\<rparr>"
    by (simp add: Mapping_init_def linspace_def numeral_2_eq_2)
  have w: "wf_tensor (Tensor 1 [[0], [0]])" by (simp add: wf_tensor_def)
  obtain out where o: "Mapping_forward \<lparr>N_freqs = 2, in_channels = 1, funcs = [sin, cos],
                        out_channels = 5, freq_bands = [1, 2]\<rparr> (Tensor 1 [[0], [0]]) = Inr out"
     "shape out = (2, 4)" "rows out = [[0, 1, 0, 1], [0, 1, 0, 1]]"
    using Mapping_forward_shape_order[OF _ _ i w] by auto
  have "out = Tensor 4 [[0, 1, 0, 1], [0, 1, 0, 1]]"
    using o(2,3) by (cases out) (simp add: shape_def)
  with o(1) have "Mapping_forward \<lparr>N_freqs = 2, in_channels = 1, funcs = [sin, cos],
                        out_channels = 5, freq_bands = [1, 2]\<rparr> (Tensor 1 [[0], [0]])
       = Inr (Tensor 4 [[0, 1, 0, 1], [0, 1, 0, 1]])"
    by simp
  with i w show ?thesis by simp
qed

text \<open>
  Claim C2. The claim gives the attribute \<open>out_channels\<close> the value
  \<open>in_channels * (2 * num_freqs)\<close>. The constructor stores
  \<open>in_channels * (2 * num_freqs + 1)\<close>: with 10 frequencies and 3 channels the attribute is
  63 while the tensor that \<open>forward\<close> returns has 60 columns.
\<close>

theorem Mapping_out_channels_counts_raw_input:
  "map_sum id out_channels (Mapping_init 10 3 True) = Inr 63
   \<and> ebind (Mapping_init 10 3 True)
         (\<lambda>m. ebind (Mapping_forward m (Tensor 3 [[0, 0, 0]])) (\<lambda>out. Inr (ncols out)))
       = Inr 60"
proof -
  obtain m where m: "Mapping_init 10 3 True = Inr m"
    by (auto simp: Mapping_init_def linspace_def)
  have oc: "out_channels m = 63"
    using Mapping_init_fields(4)[OF m] by simp
  have len: "length (freq_bands m) = 10"
    using Mapping_init_bands(1)[OF _ m] by simp
  then have ne: "freq_bands m \<noteq> []" by auto
  have "ebind (Mapping_forward m (Tensor 3 [[0, 0, 0]])) (\<lambda>out. Inr (ncols out)) = Inr 60"
    using Mapping_forward_rows[OF Mapping_init_fields(1)[OF m] ne, of "Tensor 3 [[0, 0, 0]]"] len
    by simp
  with m oc show ?thesis by simp
qed



section \<open>What the constructor builds\<close>

lemma Linear_init_ok:
  "0 \<le> i \<Longrightarrow> 0 \<le> n \<Longrightarrow> Linear_init w i n = Inr (mk_linear w i n)"
  by (simp add: Linear_init_def mk_linear_def)

lemma Mapping_init_ok: "0 \<le> N \<Longrightarrow> \<exists>m. Mapping_init N c True = Inr m"
  by (cases "N = 1") (auto simp: Mapping_init_def linspace_def)

lemma fc_loop_ok:
  assumes "0 \<le> feat" "0 \<le> in0"
  shows "fc_loop \<theta> sk feat in0 nl is acc =
     Inr (acc @ concat (map (\<lambda>i. [Linear (mk_linear (fc_w \<theta> (nat i))
                                       (if i \<in> set sk then feat + in0 else feat) feat), nl]) is))"
  using assms by (induction "is" arbitrary: acc) (simp_all add: Linear_init_ok)

lemma py_nth_0 [simp]: "py_nth (x # xs) 0 = Inr x"
  by (simp add: py_nth_def)

lemma py_nth_1 [simp]: "py_nth (x # y # xs) 1 = Inr y"
  by (simp add: py_nth_def)

lemma sizes_ok_in_size:
  assumes "sizes_ok a"
  shows "\<exists>in0 in1. in_size_of a = [in0, in1] \<and> 0 \<le> in0 \<and> 0 \<le> in1"
proof -
  obtain x d where xd: "input_sizes_arg a = [x, d]"
    using assms by (cases "input_sizes_arg a"; cases "tl (input_sizes_arg a)") (auto simp: sizes_ok_def)
  show ?thesis
  proof (cases "mapping_arg a")
    case True
    then obtain n0 n1 where n: "mapping_sizes_arg a = [n0, n1]"
      using assms by (cases "mapping_sizes_arg a"; cases "tl (mapping_sizes_arg a)") (auto simp: sizes_ok_def)
    with True xd assms show ?thesis by (simp add: in_size_of_def sizes_ok_def)
  next
    case False
    with xd assms show ?thesis by (simp add: in_size_of_def sizes_ok_def)
  qed
qed

lemma NeRF_init_built:
  assumes "sizes_ok a"
  shows "\<exists>encs. encoders a encs \<and> NeRF_init a \<theta> =
     Inr \<lparr>layers = layers_arg a, skips = skips_arg a, mapping = encs,
          input_sizes = input_sizes_arg a,
          fc_net = concat (map (\<lambda>i. [Linear (trunk_linear \<theta> a i), act_of a])
                             (0 # [1..layers_arg a - 1])),
          sigma_from_xyz = [Linear (mk_linear (sigma_w \<theta>) (feat_arg a) 1), Softplus],
          feats_from_xyz = [Linear (mk_linear (feats_w \<theta>) (feat_arg a) (feat_arg a)), act_of a],
          rgb_from_xyzdir =
            [Linear (mk_linear (rgb_w1 \<theta>) (feat_arg a + in_size_of a ! 1) (feat_arg a div 2)),
             act_of a,
             Linear (mk_linear (rgb_w2 \<theta>) (feat_arg a div 2) 3), Sigmoid]\<rparr>"
proof -
  obtain in0 in1 where ins: "in_size_of a = [in0, in1]" "0 \<le> in0" "0 \<le> in1"
    using sizes_ok_in_size[OF assms] by blast
  obtain x d where xd: "input_sizes_arg a = [x, d]"
    using assms by (cases "input_sizes_arg a"; cases "tl (input_sizes_arg a)") (auto simp: sizes_ok_def)
  have feat: "0 \<le> feat_arg a" "0 \<le> feat_arg a div 2" "0 \<le> feat_arg a + in1"
    using assms ins by (simp_all add: sizes_ok_def pos_imp_zdiv_nonneg_iff)
  have loop: "\<And>nl acc. fc_loop \<theta> (skips_arg a) (feat_arg a) in0 nl [1..layers_arg a - 1] acc =
     Inr (acc @ concat (map (\<lambda>i. [Linear (trunk_linear \<theta> a i), nl]) [1..layers_arg a - 1]))"
    unfolding fc_loop_ok[OF feat(1) ins(2)]
    by (auto simp: trunk_linear_def ins intro!: arg_cong[where f=concat])
  show ?thesis
  proof (cases "mapping_arg a")
    case True
    then obtain n0 n1 where n: "mapping_sizes_arg a = [n0, n1]" "0 \<le> n0" "0 \<le> n1"
      using assms by (cases "mapping_sizes_arg a"; cases "tl (mapping_sizes_arg a)") (auto simp: sizes_ok_def)
    obtain m0 m1 where m: "Mapping_init n0 x True = Inr m0" "Mapping_init n1 d True = Inr m1"
      using Mapping_init_ok n(2,3) by blast
    have is': "[2 * n0 * x, 2 * n1 * d] = [in0, in1]"
      using ins(1) True n xd by (simp add: in_size_of_def)
    have "encoders a [Mapping m0, Mapping m1]"
      using True n xd m by (simp add: encoders_def)
    moreover have "NeRF_init a \<theta> = Inr \<lparr>layers = layers_arg a, skips = skips_arg a,
          mapping = [Mapping m0, Mapping m1],
          input_sizes = input_sizes_arg a,
          fc_net = concat (map (\<lambda>i. [Linear (trunk_linear \<theta> a i), act_of a])
                             (0 # [1..layers_arg a - 1])),
          sigma_from_xyz = [Linear (mk_linear (sigma_w \<theta>) (feat_arg a) 1), Softplus],
          feats_from_xyz = [Linear (mk_linear (feats_w \<theta>) (feat_arg a) (feat_arg a)), act_of a],
          rgb_from_xyzdir =
            [Linear (mk_linear (rgb_w1 \<theta>) (feat_arg a + in_size_of a ! 1) (feat_arg a div 2)),
             act_of a,
             Linear (mk_linear (rgb_w2 \<theta>) (feat_arg a div 2) 3), Sigmoid]\<rparr>"
      using True n xd m is' ins feat
      by (simp add: NeRF_init_def Let_def Linear_init_ok loop act_of_def trunk_linear_def)
    ultimately show ?thesis by blast
  next
    case False
    have is': "[x, d] = [in0, in1]"
      using ins(1) False xd by (simp add: in_size_of_def)
    have "encoders a [Siren, Siren]"
      using False by (simp add: encoders_def)
    moreover have "NeRF_init a \<theta> = Inr \<lparr>layers = layers_arg a, skips = skips_arg a,
          mapping = [Siren, Siren],
          input_sizes = input_sizes_arg a,
          fc_net = concat (map (\<lambda>i. [Linear (trunk_linear \<theta> a i), act_of a])
                             (0 # [1..layers_arg a - 1])),
          sigma_from_xyz = [Linear (mk_linear (sigma_w \<theta>) (feat_arg a) 1), Softplus],
          feats_from_xyz = [Linear (mk_linear (feats_w \<theta>) (feat_arg a) (feat_arg a)), act_of a],
          rgb_from_xyzdir =
            [Linear (mk_linear (rgb_w1 \<theta>) (feat_arg a + in_size_of a ! 1) (feat_arg a div 2)),
             act_of a,
             Linear (mk_linear (rgb_w2 \<theta>) (feat_arg a div 2) 3), Sigmoid]\<rparr>"
      using False xd is' ins feat
      by (simp add: NeRF_init_def Let_def Linear_init_ok loop act_of_def trunk_linear_def)
    ultimately show ?thesis by blast
  qed
qed

section \<open>Shapes through the layers\<close>

lemma has_shape_tmap [simp]: "has_shape (tmap f t) B w = has_shape t B w"
  by (simp add: has_shape_def)

lemma Linear_forward_shape:
  assumes "has_shape x B (in_features l)"
  shows "\<exists>y. Linear_forward l x = Inr y \<and> has_shape y B (out_features l)"
  using assms by (simp add: Linear_forward_def has_shape_def wf_tensor_def list_all_iff)

lemma Linear_forward_mismatch:
  "ncols x \<noteq> in_features l \<Longrightarrow> Linear_forward l x = Inl ShapeError"
  by (simp add: Linear_forward_def)

lemma act_forward_shape:
  assumes "has_shape x B w"
  shows "\<exists>y. module_forward (act_of a) x = Inr y \<and> has_shape y B w"
  using assms by (simp add: act_of_def Siren_forward_def)

lemma cat2:
  assumes "has_shape s B v" and "has_shape t B w"
  shows "cat [s, t] = Inr (Tensor (v + w) (map2 (@) (rows s) (rows t)))"
    and "has_shape (Tensor (v + w) (map2 (@) (rows s) (rows t))) B (v + w)"
proof -
  have "map (\<lambda>b. rows s ! b @ rows t ! b) [0..<B] = map2 (@) (rows s) (rows t)"
    using assms by (intro nth_equalityI) (simp_all add: has_shape_def)
  then show "cat [s, t] = Inr (Tensor (v + w) (map2 (@) (rows s) (rows t)))"
    using assms by (simp add: cat_def has_shape_def)
  show "has_shape (Tensor (v + w) (map2 (@) (rows s) (rows t))) B (v + w)"
    using assms by (fastforce simp: has_shape_def wf_tensor_def list_all_iff
        dest: set_zip_leftD set_zip_rightD)
qed

lemma nth_pairs:
  "j < length xs \<Longrightarrow> concat (map (\<lambda>i. [f i, g i]) xs) ! (2 * j) = f (xs ! j)
     \<and> concat (map (\<lambda>i. [f i, g i]) xs) ! Suc (2 * j) = g (xs ! j)"
proof (induction xs arbitrary: j)
  case Nil
  then show ?case by simp
next
  case (Cons x xs)
  then show ?case by (cases j) simp_all
qed

lemma length_pairs: "length (concat (map (\<lambda>i. [f i, g i]) xs)) = 2 * length xs"
  by (induction xs) simp_all

lemma py_nth_pairs:
  assumes "0 \<le> i" and "i \<le> n"
  shows "py_nth (concat (map (\<lambda>i. [f i, g i]) [0..n])) (2 * i) = Inr (f i)"
    and "py_nth (concat (map (\<lambda>i. [f i, g i]) [0..n])) (2 * i + 1) = Inr (g i)"
proof -
  have j: "nat i < length [0..n]" using assms by simp
  have e: "[0..n] ! nat i = i" using assms by simp
  have n2: "nat (2 * i) = 2 * nat i" "nat (2 * i + 1) = Suc (2 * nat i)"
    using assms(1) by linarith+
  show "py_nth (concat (map (\<lambda>i. [f i, g i]) [0..n])) (2 * i) = Inr (f i)"
    using assms nth_pairs[OF j, of f g] unfolding e
    by (simp add: py_nth_def length_pairs n2)
  show "py_nth (concat (map (\<lambda>i. [f i, g i]) [0..n])) (2 * i + 1) = Inr (g i)"
    using assms nth_pairs[OF j, of f g] unfolding e
    by (simp add: py_nth_def length_pairs n2)
qed


lemma Mapping_forward_has_shape:
  assumes "Mapping_init N c True = Inr m" and "1 \<le> N" and "has_shape x B w"
  shows "\<exists>y. Mapping_forward m x = Inr y \<and> has_shape y B (nat N * (2 * w))"
proof -
  have len: "length (freq_bands m) = nat N"
    using assms(2,1) by (rule Mapping_init_bands)
  with assms(2) have ne: "freq_bands m \<noteq> []" by auto
  have fs: "funcs m = [sin, cos]" using assms(1) by (rule Mapping_init_fields)
  have "has_shape (Tensor (nat N * (2 * w))
           (map (\<lambda>r. concat (map (\<lambda>freq. map (\<lambda>v. sin (freq * v)) r @
                                        map (\<lambda>v. cos (freq * v)) r) (freq_bands m)))
                (rows x))) B (nat N * (2 * w))"
    using assms(3) by (simp add: has_shape_def wf_tensor_def list_all_iff length_blocks len)
  then show ?thesis
    using Mapping_forward_rows[OF fs ne, of x] assms(3) by (simp add: len has_shape_def mult_2)
qed

lemma encoder_forward_shape:
  assumes "encoders a encs" and "k < 2"
    and "mapping_arg a \<longrightarrow> 1 \<le> mapping_sizes_arg a ! k"
    and "has_shape x B w"
  shows "\<exists>e y. py_nth encs (int k) = Inr e \<and> module_forward e x = Inr y
           \<and> has_shape y B (if mapping_arg a then nat (mapping_sizes_arg a ! k) * (2 * w) else w)"
proof -
  from assms(2) consider "k = 0" | "k = 1" by linarith
  then show ?thesis
  proof cases
    case 1
    show ?thesis
    proof (cases "mapping_arg a")
      case True
      then obtain m0 m1 where e: "encs = [Mapping m0, Mapping m1]"
        and m: "Mapping_init (mapping_sizes_arg a ! 0) (input_sizes_arg a ! 0) True = Inr m0"
        using assms(1) by (auto simp: encoders_def)
      from True assms(3) 1 have "1 \<le> mapping_sizes_arg a ! 0" by simp
      from Mapping_forward_has_shape[OF m this assms(4)] e True 1 show ?thesis by simp
    next
      case False
      with assms(1,4) 1 show ?thesis by (simp add: encoders_def Siren_forward_def)
    qed
  next
    case 2
    show ?thesis
    proof (cases "mapping_arg a")
      case True
      then obtain m0 m1 where e: "encs = [Mapping m0, Mapping m1]"
        and m: "Mapping_init (mapping_sizes_arg a ! 1) (input_sizes_arg a ! 1) True = Inr m1"
        using assms(1) by (auto simp: encoders_def)
      from True assms(3) 2 have "1 \<le> mapping_sizes_arg a ! 1" by simp
      from Mapping_forward_has_shape[OF m this assms(4)] e True 2 show ?thesis by simp
    next
      case False
      with assms(1,4) 2 show ?thesis by (simp add: encoders_def Siren_forward_def)
    qed
  qed
qed

lemma trunk_layer_in:
  "in_features (trunk_linear \<theta> a i) =
     nat (if i = 0 then in_size_of a ! 0
          else if i \<in> set (skips_arg a) then feat_arg a + in_size_of a ! 0 else feat_arg a)"
  and trunk_layer_out: "out_features (trunk_linear \<theta> a i) = nat (feat_arg a)"
  by (simp_all add: trunk_linear_def mk_linear_def)

lemma trunk_step:
  assumes fc: "fc_net M = concat (map (\<lambda>i. [Linear (trunk_linear \<theta> a i), act_of a]) [0..n])"
    and sk: "skips M = skips_arg a" "0 \<notin> set (skips_arg a)"
    and sz: "0 \<le> in_size_of a ! 0" "0 \<le> feat_arg a"
    and e: "has_shape e B (nat (in_size_of a ! 0))"
    and k: "0 \<le> k" "k \<le> n"
    and h: "has_shape h B (nat (if k = 0 then in_size_of a ! 0 else feat_arg a))"
  shows "\<exists>h2. has_shape h2 B (nat (feat_arg a)) \<and> trunk M e (k # ks) h = trunk M e ks h2"
proof -
  have "\<exists>hh. (if k \<in> set (skips M) then cat [e, h] else Inr h) = Inr hh
           \<and> has_shape hh B (in_features (trunk_linear \<theta> a k))"
  proof (cases "k \<in> set (skips_arg a)")
    case True
    with sk(2) have k0: "k \<noteq> 0" by auto
    with h have h': "has_shape h B (nat (feat_arg a))" by simp
    have w: "nat (in_size_of a ! 0) + nat (feat_arg a) = nat (feat_arg a + in_size_of a ! 0)"
      using sz by linarith
    show ?thesis
      using cat2[OF e h'] True k0 sk(1) unfolding w by (simp add: trunk_layer_in)
  next
    case False
    with h sk(1) show ?thesis by (cases "k = 0") (simp_all add: trunk_layer_in)
  qed
  then obtain hh where hh: "(if k \<in> set (skips M) then cat [e, h] else Inr h) = Inr hh"
    "has_shape hh B (in_features (trunk_linear \<theta> a k))" by blast
  obtain y where y: "Linear_forward (trunk_linear \<theta> a k) hh = Inr y"
    "has_shape y B (nat (feat_arg a))"
    using Linear_forward_shape[OF hh(2)] by (auto simp: trunk_layer_out)
  obtain h2 where h2: "module_forward (act_of a) y = Inr h2" "has_shape h2 B (nat (feat_arg a))"
    using act_forward_shape[OF y(2)] by blast
  have "trunk M e (k # ks) h = trunk M e ks h2"
    using hh(1) y(1) h2(1) py_nth_pairs[OF k, of "\<lambda>i. Linear (trunk_linear \<theta> a i)" "\<lambda>i. act_of a"]
    by (simp add: fc)
  with h2(2) show ?thesis by blast
qed

lemma trunk_shape:
  assumes fc: "fc_net M = concat (map (\<lambda>i. [Linear (trunk_linear \<theta> a i), act_of a]) [0..n])"
    and sk: "skips M = skips_arg a" "0 \<notin> set (skips_arg a)"
    and sz: "0 \<le> in_size_of a ! 0" "0 \<le> feat_arg a"
    and e: "has_shape e B (nat (in_size_of a ! 0))"
  shows "0 \<le> k \<Longrightarrow> k \<le> n
     \<Longrightarrow> has_shape h B (nat (if k = 0 then in_size_of a ! 0 else feat_arg a))
     \<Longrightarrow> \<exists>s. trunk M e [k..n] h = Inr s \<and> has_shape s B (nat (feat_arg a))"
proof (induction "nat (n - k)" arbitrary: k h)
  case 0
  then have up: "[k..n] = [k]" by (simp add: upto_rec1)
  from trunk_step[OF fc sk sz e "0.prems", of "[]"] show ?case
    unfolding up by auto
next
  case (Suc d)
  then have kn: "k < n" and up: "[k..n] = k # [k + 1..n]" by (simp_all add: upto_rec1)
  obtain h2 where h2: "has_shape h2 B (nat (feat_arg a))"
    "trunk M e (k # [k + 1..n]) h = trunk M e [k + 1..n] h2"
    using trunk_step[OF fc sk sz e Suc.prems, of "[k + 1..n]"] by blast
  have d: "d = nat (n - (k + 1))" using Suc.hyps(2) by linarith
  have "has_shape h2 B (nat (if k + 1 = 0 then in_size_of a ! 0 else feat_arg a))"
    using h2(1) Suc.prems(1) by simp
  from Suc.hyps(1)[OF d _ _ this] kn Suc.prems(1) show ?case
    unfolding up h2(2) by simp
qed

section \<open>The forward pass of a constructed model\<close>

lemma built_fields:
  assumes "sizes_ok a" and "NeRF_init a \<theta> = Inr M"
  shows "layers M = layers_arg a" and "skips M = skips_arg a"
    and "input_sizes M = input_sizes_arg a" and "encoders a (mapping M)"
    and "fc_net M = concat (map (\<lambda>i. [Linear (trunk_linear \<theta> a i), act_of a])
                             (0 # [1..layers_arg a - 1]))"
    and "sigma_from_xyz M = [Linear (mk_linear (sigma_w \<theta>) (feat_arg a) 1), Softplus]"
    and "feats_from_xyz M = [Linear (mk_linear (feats_w \<theta>) (feat_arg a) (feat_arg a)), act_of a]"
    and "rgb_from_xyzdir M =
            [Linear (mk_linear (rgb_w1 \<theta>) (feat_arg a + in_size_of a ! 1) (feat_arg a div 2)),
             act_of a,
             Linear (mk_linear (rgb_w2 \<theta>) (feat_arg a div 2) 3), Sigmoid]"
  using NeRF_init_built[OF assms(1), of \<theta>] assms(2) by auto

lemma sizes_ok_lists:
  assumes "sizes_ok a"
  obtains x d where "input_sizes_arg a = [x, d]" "0 \<le> x" "0 \<le> d"
proof -
  obtain x d where xd: "input_sizes_arg a = [x, d]"
    using assms by (cases "input_sizes_arg a"; cases "tl (input_sizes_arg a)") (auto simp: sizes_ok_def)
  with assms have "0 \<le> x" "0 \<le> d" by (simp_all add: sizes_ok_def)
  with xd that show ?thesis by blast
qed

lemma in_size_nat:
  assumes "sizes_ok a" and "k < 2"
  shows "nat (in_size_of a ! k) =
     (if mapping_arg a then nat (mapping_sizes_arg a ! k) * (2 * nat (input_sizes_arg a ! k))
      else nat (input_sizes_arg a ! k))"
    and "0 \<le> in_size_of a ! k"
proof -
  obtain x d where xd: "input_sizes_arg a = [x, d]" "0 \<le> x" "0 \<le> d"
    using assms(1) by (rule sizes_ok_lists)
  from assms(2) consider "k = 0" | "k = 1" by linarith
  then have "nat (in_size_of a ! k) =
     (if mapping_arg a then nat (mapping_sizes_arg a ! k) * (2 * nat (input_sizes_arg a ! k))
      else nat (input_sizes_arg a ! k)) \<and> 0 \<le> in_size_of a ! k"
  proof cases
    case 1
    show ?thesis
    proof (cases "mapping_arg a")
      case True
      then obtain n0 n1 where n: "mapping_sizes_arg a = [n0, n1]" "0 \<le> n0" "0 \<le> n1"
        using assms(1) by (cases "mapping_sizes_arg a"; cases "tl (mapping_sizes_arg a)") (auto simp: sizes_ok_def)
      have "nat (2 * n0 * x) = nat n0 * (2 * nat x)"
        using n(2) xd(2) by (simp add: nat_mult_distrib mult.assoc mult.left_commute)
      with True n xd 1 show ?thesis by (simp add: in_size_of_def)
    next
      case False
      with xd 1 show ?thesis by (simp add: in_size_of_def)
    qed
  next
    case 2
    show ?thesis
    proof (cases "mapping_arg a")
      case True
      then obtain n0 n1 where n: "mapping_sizes_arg a = [n0, n1]" "0 \<le> n0" "0 \<le> n1"
        using assms(1) by (cases "mapping_sizes_arg a"; cases "tl (mapping_sizes_arg a)") (auto simp: sizes_ok_def)
      have "nat (2 * n1 * d) = nat n1 * (2 * nat d)"
        using n(3) xd(3) by (simp add: nat_mult_distrib mult.assoc mult.left_commute)
      with True n xd 2 show ?thesis by (simp add: in_size_of_def)
    next
      case False
      with xd 2 show ?thesis by (simp add: in_size_of_def)
    qed
  qed
  then show "nat (in_size_of a ! k) =
     (if mapping_arg a then nat (mapping_sizes_arg a ! k) * (2 * nat (input_sizes_arg a ! k))
      else nat (input_sizes_arg a ! k))" and "0 \<le> in_size_of a ! k" by simp_all
qed

lemma shared_features_shape:
  assumes wc: "well_configured a" and M: "NeRF_init a \<theta> = Inr M"
    and x: "has_shape x B (nat (input_sizes_arg a ! 0))"
  shows "\<exists>s. shared_features M x = Inr s \<and> has_shape s B (nat (feat_arg a))"
proof -
  have so: "sizes_ok a" and l1: "1 \<le> layers_arg a" and s0: "0 \<notin> set (skips_arg a)"
    and n0: "mapping_arg a \<longrightarrow> 1 \<le> mapping_sizes_arg a ! 0"
    using wc by (auto simp: well_configured_def split: if_splits)
  note f = built_fields[OF so M]
  have up: "0 # [1..layers_arg a - 1] = [0..layers_arg a - 1]"
    using l1 by (simp add: upto_rec1)
  obtain enc e where enc: "py_nth (mapping M) 0 = Inr enc" "module_forward enc x = Inr e"
    and e: "has_shape e B (nat (in_size_of a ! 0))"
    using encoder_forward_shape[where k=0, OF f(4) _ _ x] n0 in_size_nat(1)[OF so, of 0] by auto
  have e': "has_shape e B (nat (if (0::int) = 0 then in_size_of a ! 0 else feat_arg a))"
    using e by simp
  have feat: "0 \<le> feat_arg a" using so by (simp add: sizes_ok_def)
  obtain s where s: "trunk M e [0..layers_arg a - 1] e = Inr s" "has_shape s B (nat (feat_arg a))"
    using trunk_shape[OF f(5)[unfolded up] f(2) s0 in_size_nat(2)[OF so] feat e _ _ e'] l1
    by auto
  show ?thesis
    using enc s by (simp add: shared_features_def f(1))
qed


lemma ebind_Inr_right: "ebind r Inr = r" "ebind r (\<lambda>v. Inr v) = r"
  by (cases r; simp)+

lemma softplus_pos: "0 < softplus v"
proof (cases "v > 20")
  case True
  then show ?thesis by (simp add: softplus_def)
next
  case False
  have "1 < 1 + exp v" by simp
  then have "0 < ln (1 + exp v)" by (rule ln_gt_zero)
  with False show ?thesis by (simp add: softplus_def)
qed

lemma sigmoid_range: "0 < sigmoid v" "sigmoid v < 1"
proof -
  have p: "0 < exp (- v)" by simp
  then show "0 < sigmoid v" by (simp add: sigmoid_def add_pos_pos)
  from p have "0 < 1 + exp (- v)" by (simp add: add_pos_pos)
  then show "sigmoid v < 1" unfolding sigmoid_def by (simp add: divide_less_eq_1_pos)
qed

lemma sigma_head_shape:
  assumes so: "sizes_ok a" and M: "NeRF_init a \<theta> = Inr M"
    and s: "has_shape s B (nat (feat_arg a))"
  shows "\<exists>sg. Sequential_forward (sigma_from_xyz M) s = Inr sg \<and> has_shape sg B 1
           \<and> (\<forall>r\<in>set (rows sg). \<forall>v\<in>set r. 0 < v)"
proof -
  note f = built_fields[OF so M]
  have "has_shape s B (in_features (mk_linear (sigma_w \<theta>) (feat_arg a) 1))"
    using s by (simp add: mk_linear_def)
  from Linear_forward_shape[OF this]
  obtain y where y: "Linear_forward (mk_linear (sigma_w \<theta>) (feat_arg a) 1) s = Inr y"
    "has_shape y B 1" by (auto simp: mk_linear_def)
  have "\<forall>r\<in>set (rows (tmap softplus y)). \<forall>v\<in>set r. 0 < v"
    using softplus_pos by auto
  with y show ?thesis by (simp add: f(6))
qed

lemma rgb_head_shape:
  assumes so: "sizes_ok a" and M: "NeRF_init a \<theta> = Inr M"
    and i: "has_shape inp B (nat (feat_arg a + in_size_of a ! 1))"
  shows "\<exists>rgb. Sequential_forward (rgb_from_xyzdir M) inp = Inr rgb \<and> has_shape rgb B 3
           \<and> (\<forall>r\<in>set (rows rgb). \<forall>v\<in>set r. 0 < v \<and> v < 1)"
proof -
  note f = built_fields[OF so M]
  have "has_shape inp B (in_features (mk_linear (rgb_w1 \<theta>) (feat_arg a + in_size_of a ! 1) (feat_arg a div 2)))"
    using i by (simp add: mk_linear_def)
  from Linear_forward_shape[OF this]
  obtain y1 where y1: "Linear_forward (mk_linear (rgb_w1 \<theta>) (feat_arg a + in_size_of a ! 1) (feat_arg a div 2)) inp = Inr y1"
    "has_shape y1 B (nat (feat_arg a div 2))" by (auto simp: mk_linear_def)
  obtain y2 where y2: "module_forward (act_of a) y1 = Inr y2" "has_shape y2 B (nat (feat_arg a div 2))"
    using act_forward_shape[OF y1(2)] by blast
  have "has_shape y2 B (in_features (mk_linear (rgb_w2 \<theta>) (feat_arg a div 2) 3))"
    using y2(2) by (simp add: mk_linear_def)
  from Linear_forward_shape[OF this]
  obtain y3 where y3: "Linear_forward (mk_linear (rgb_w2 \<theta>) (feat_arg a div 2) 3) y2 = Inr y3"
    "has_shape y3 B 3" by (auto simp: mk_linear_def)
  have "\<forall>r\<in>set (rows (tmap sigmoid y3)). \<forall>v\<in>set r. 0 < v \<and> v < 1"
    using sigmoid_range by auto
  with y1 y2 y3 show ?thesis by (simp add: f(8))
qed

lemma feats_head_shape:
  assumes so: "sizes_ok a" and M: "NeRF_init a \<theta> = Inr M"
    and s: "has_shape s B (nat (feat_arg a))"
  shows "\<exists>xf. Sequential_forward (feats_from_xyz M) s = Inr xf \<and> has_shape xf B (nat (feat_arg a))"
proof -
  note f = built_fields[OF so M]
  have "has_shape s B (in_features (mk_linear (feats_w \<theta>) (feat_arg a) (feat_arg a)))"
    using s by (simp add: mk_linear_def)
  from Linear_forward_shape[OF this]
  obtain y where y: "Linear_forward (mk_linear (feats_w \<theta>) (feat_arg a) (feat_arg a)) s = Inr y"
    "has_shape y B (nat (feat_arg a))" by (auto simp: mk_linear_def)
  obtain y2 where y2: "module_forward (act_of a) y = Inr y2" "has_shape y2 B (nat (feat_arg a))"
    using act_forward_shape[OF y(2)] by blast
  with y show ?thesis by (simp add: f(7))
qed

lemma split_shape:
  assumes "has_shape x B (nat (p + q))" and "0 \<le> p" and "0 \<le> q"
  shows "split x p q = Inr (Tensor (nat p) (map (take (nat p)) (rows x)),
                            Tensor (nat q) (map (drop (nat p)) (rows x)))"
    and "has_shape (Tensor (nat p) (map (take (nat p)) (rows x))) B (nat p)"
    and "has_shape (Tensor (nat q) (map (drop (nat p)) (rows x))) B (nat q)"
proof -
  have w: "ncols x = nat p + nat q" using assms by (simp add: has_shape_def nat_add_distrib)
  then have "p + q = int (ncols x)" using assms(2,3) by simp
  then show "split x p q = Inr (Tensor (nat p) (map (take (nat p)) (rows x)),
                            Tensor (nat q) (map (drop (nat p)) (rows x)))"
    using assms(2,3) by (simp add: split_def)
  show "has_shape (Tensor (nat p) (map (take (nat p)) (rows x))) B (nat p)"
    using assms(1) w by (auto simp: has_shape_def wf_tensor_def list_all_iff)
  show "has_shape (Tensor (nat q) (map (drop (nat p)) (rows x))) B (nat q)"
    using assms(1) w by (auto simp: has_shape_def wf_tensor_def list_all_iff)
qed

lemma NeRF_forward_sigma_only:
  "NeRF_forward M x input_dir True =
     ebind (shared_features M x) (Sequential_forward (sigma_from_xyz M))"
  by (simp add: NeRF_forward_def ebind_Inr_right)

lemma NeRF_forward_full:
  assumes wc: "well_configured a" and M: "NeRF_init a \<theta> = Inr M"
    and x: "has_shape x B (nat (if 0 < input_sizes_arg a ! 1
                                 then input_sizes_arg a ! 0 + input_sizes_arg a ! 1
                                 else input_sizes_arg a ! 0))"
  shows "\<exists>s sg inp rgb.
            shared_features M (xyz_of a x) = Inr s
          \<and> Sequential_forward (sigma_from_xyz M) s = Inr sg
          \<and> has_shape sg B 1 \<and> (\<forall>r\<in>set (rows sg). \<forall>v\<in>set r. 0 < v)
          \<and> Sequential_forward (rgb_from_xyzdir M) inp = Inr rgb
          \<and> has_shape rgb B 3 \<and> (\<forall>r\<in>set (rows rgb). \<forall>v\<in>set r. 0 < v \<and> v < 1)
          \<and> NeRF_forward M x input_dir False = Inr (Tensor 4 (map2 (@) (rows rgb) (rows sg)))"
proof -
  have so: "sizes_ok a"
    and n1: "mapping_arg a \<longrightarrow> 0 < input_sizes_arg a ! 1 \<longrightarrow> 1 \<le> mapping_sizes_arg a ! 1"
    using wc by (auto simp: well_configured_def split: if_splits)
  note f = built_fields[OF so M]
  obtain p d where pd: "input_sizes_arg a = [p, d]" "0 \<le> p" "0 \<le> d"
    using so by (rule sizes_ok_lists)
  have isz: "py_nth (input_sizes M) 0 = Inr p" "py_nth (input_sizes M) 1 = Inr d"
    by (simp_all add: f(3) pd)
  have xc: "0 < d \<Longrightarrow> has_shape x B (nat (p + d))" "\<not> 0 < d \<Longrightarrow> has_shape x B (nat p)"
    using x pd by simp_all
  have xs: "has_shape (xyz_of a x) B (nat (input_sizes_arg a ! 0))"
    using xc split_shape(2)[of x B p d] pd by (cases "0 < d") (simp_all add: xyz_of_def)
  obtain s where s: "shared_features M (xyz_of a x) = Inr s" "has_shape s B (nat (feat_arg a))"
    using shared_features_shape[OF wc M xs] by blast
  obtain sg where sg: "Sequential_forward (sigma_from_xyz M) s = Inr sg" "has_shape sg B 1"
    "\<forall>r\<in>set (rows sg). \<forall>v\<in>set r. 0 < v"
    using sigma_head_shape[OF so M s(2)] by blast
  obtain xf where xf: "Sequential_forward (feats_from_xyz M) s = Inr xf"
    "has_shape xf B (nat (feat_arg a))"
    using feats_head_shape[OF so M s(2)] by blast
  have feat: "0 \<le> feat_arg a" using so by (simp add: sizes_ok_def)
  show ?thesis
  proof (cases "0 < d")
    case True
    have sp: "split x p d = Inr (xyz_of a x, Tensor (nat d) (map (drop (nat p)) (rows x)))"
      and dsh: "has_shape (Tensor (nat d) (map (drop (nat p)) (rows x))) B (nat (input_sizes_arg a ! 1))"
      using xc(1) split_shape(1,3)[of x B p d] pd True by (simp_all add: xyz_of_def)
    obtain enc e where enc: "py_nth (mapping M) 1 = Inr enc"
      "module_forward enc (Tensor (nat d) (map (drop (nat p)) (rows x))) = Inr e"
      and e: "has_shape e B (nat (in_size_of a ! 1))"
      using encoder_forward_shape[where k=1, OF f(4) _ _ dsh] n1 True pd
        in_size_nat(1)[OF so, of 1] by auto
    have w: "nat (feat_arg a) + nat (in_size_of a ! 1) = nat (feat_arg a + in_size_of a ! 1)"
      using feat in_size_nat(2)[OF so, of 1] by simp
    note c = cat2[OF xf(2) e, unfolded w]
    obtain rgb where rgb: "Sequential_forward (rgb_from_xyzdir M)
          (Tensor (nat (feat_arg a + in_size_of a ! 1)) (map2 (@) (rows xf) (rows e))) = Inr rgb"
      "has_shape rgb B 3" "\<forall>r\<in>set (rows rgb). \<forall>v\<in>set r. 0 < v \<and> v < 1"
      using rgb_head_shape[OF so M c(2)] by blast
    have "NeRF_forward M x input_dir False = Inr (Tensor 4 (map2 (@) (rows rgb) (rows sg)))"
      using True isz sp s(1) sg(1) xf(1) enc c(1) rgb(1) cat2(1)[OF rgb(2) sg(2)]
      by (simp add: NeRF_forward_def)
    with s sg rgb show ?thesis by blast
  next
    case False
    with pd have d0: "d = 0" by simp
    have x': "xyz_of a x = x" using pd d0 by (simp add: xyz_of_def)
    have "nat (in_size_of a ! 1) = 0"
      using in_size_nat(1)[OF so, of 1] pd d0 by simp
    with in_size_nat(2)[OF so, of 1] have "in_size_of a ! 1 = 0" by simp
    then have "has_shape xf B (nat (feat_arg a + in_size_of a ! 1))" using xf(2) by simp
    then obtain rgb where rgb: "Sequential_forward (rgb_from_xyzdir M) xf = Inr rgb"
      "has_shape rgb B 3" "\<forall>r\<in>set (rows rgb). \<forall>v\<in>set r. 0 < v \<and> v < 1"
      using rgb_head_shape[OF so M] by blast
    have "NeRF_forward M x input_dir False = Inr (Tensor 4 (map2 (@) (rows rgb) (rows sg)))"
      using d0 isz s(1)[unfolded x'] sg(1) xf(1) rgb(1) cat2(1)[OF rgb(2) sg(2)]
      by (simp add: NeRF_forward_def)
    with s sg rgb show ?thesis by blast
  qed
qed


lemma well_configured_sizes: "well_configured a \<Longrightarrow> sizes_ok a"
  by (simp add: well_configured_def)




lemma sigma_column:
  assumes "has_shape rgb B 3" and "has_shape sg B 1"
  shows "map (\<lambda>r. r ! 3) (map2 (@) (rows rgb) (rows sg)) = map (\<lambda>q. q ! 0) (rows sg)"
proof (rule nth_equalityI)
  show "length (map (\<lambda>r. r ! 3) (map2 (@) (rows rgb) (rows sg))) = length (map (\<lambda>q. q ! 0) (rows sg))"
    using assms by (simp add: has_shape_def)
next
  fix i assume "i < length (map (\<lambda>r. r ! 3) (map2 (@) (rows rgb) (rows sg)))"
  then have i: "i < length (rows rgb)" "i < length (rows sg)" by simp_all
  then have "length (rows rgb ! i) = 3"
    using assms(1) by (simp add: has_shape_def wf_tensor_def list_all_length)
  with i show "map (\<lambda>r. r ! 3) (map2 (@) (rows rgb) (rows sg)) ! i = map (\<lambda>q. q ! 0) (rows sg) ! i"
    by (simp add: nth_append)
qed

text \<open>
  Claim C7. For a model with a direction branch (as with \<open>input_sizes = [3, 3]\<close>), two
  batches that agree on the xyz columns and differ only in the direction columns give
  outputs with the same density column: it is the density of the xyz part alone.
\<close>

theorem sigma_ignores_direction:
  assumes "well_configured a" and "NeRF_init a \<theta> = Inr M"
    and "0 < input_sizes_arg a ! 1"
    and "has_shape x B (nat (input_sizes_arg a ! 0 + input_sizes_arg a ! 1))"
    and "has_shape x' B (nat (input_sizes_arg a ! 0 + input_sizes_arg a ! 1))"
    and "map (take (nat (input_sizes_arg a ! 0))) (rows x)
           = map (take (nat (input_sizes_arg a ! 0))) (rows x')"
  shows "\<exists>out out' sigma.
            NeRF_forward M x input_dir False = Inr out
          \<and> NeRF_forward M x' input_dir' False = Inr out'
          \<and> NeRF_forward M (xyz_of a x) None True = Inr sigma
          \<and> map (\<lambda>r. r ! 3) (rows out) = map (\<lambda>q. q ! 0) (rows sigma)
          \<and> map (\<lambda>r. r ! 3) (rows out') = map (\<lambda>r. r ! 3) (rows out)"
proof -
  have same: "xyz_of a x' = xyz_of a x"
    using assms(3,6) by (simp add: xyz_of_def)
  have x: "has_shape x B (nat (if 0 < input_sizes_arg a ! 1
                                 then input_sizes_arg a ! 0 + input_sizes_arg a ! 1
                                 else input_sizes_arg a ! 0))"
    and x': "has_shape x' B (nat (if 0 < input_sizes_arg a ! 1
                                 then input_sizes_arg a ! 0 + input_sizes_arg a ! 1
                                 else input_sizes_arg a ! 0))"
    using assms(3,4,5) by simp_all
  obtain s sg inp rgb where
    s: "shared_features M (xyz_of a x) = Inr s"
    and sg: "Sequential_forward (sigma_from_xyz M) s = Inr sg" "has_shape sg B 1"
    and rgb: "has_shape rgb B 3"
    and fw: "NeRF_forward M x input_dir False = Inr (Tensor 4 (map2 (@) (rows rgb) (rows sg)))"
    using NeRF_forward_full[OF assms(1,2) x, of input_dir] by blast
  obtain s' sg' inp' rgb' where
    s': "shared_features M (xyz_of a x') = Inr s'"
    and sg': "Sequential_forward (sigma_from_xyz M) s' = Inr sg'"
    and rgb': "has_shape rgb' B 3"
    and fw': "NeRF_forward M x' input_dir' False = Inr (Tensor 4 (map2 (@) (rows rgb') (rows sg')))"
    using NeRF_forward_full[OF assms(1,2) x', of input_dir'] by blast
  from s s' same have "s' = s" by simp
  with sg(1) sg' have eq: "sg' = sg" by simp
  have dens: "NeRF_forward M (xyz_of a x) None True = Inr sg"
    using s sg(1) by (simp add: NeRF_forward_sigma_only)
  show ?thesis
    using fw fw'[unfolded eq] dens sigma_column[OF rgb sg(2)] sigma_column[OF rgb' sg(2)]
    by simp
qed

lemma blender_well_configured: "well_configured (blender DefaultConfig)"
  by (simp add: well_configured_def sizes_ok_def DefaultConfig_def blender_def)

theorem sigma_ignores_direction_witness:
  "well_configured (blender DefaultConfig)
   \<and> input_sizes_arg (blender DefaultConfig) = [3, 3]
   \<and> has_shape (Tensor 6 [[1, 2, 3, 1, 0, 0]]) 1 6
   \<and> has_shape (Tensor 6 [[1, 2, 3, 0, 0, 1]]) 1 6
   \<and> (\<exists>M out out'. NeRF_init (blender DefaultConfig) zero_params = Inr M
        \<and> NeRF_forward M (Tensor 6 [[1, 2, 3, 1, 0, 0]]) None False = Inr out
        \<and> NeRF_forward M (Tensor 6 [[1, 2, 3, 0, 0, 1]]) None False = Inr out'
        \<and> map (\<lambda>r. r ! 3) (rows out') = map (\<lambda>r. r ! 3) (rows out))"
proof -
  have wc: "well_configured (blender DefaultConfig)" by (rule blender_well_configured)
  have i: "input_sizes_arg (blender DefaultConfig) = [3, 3]"
    by (simp add: blender_def DefaultConfig_def)
  have x: "has_shape (Tensor 6 [[1, 2, 3, 1, 0, 0]]) 1 6"
    and x': "has_shape (Tensor 6 [[1, 2, 3, 0, 0, 1]]) 1 6"
    by (simp_all add: has_shape_def wf_tensor_def)
  obtain M where M: "NeRF_init (blender DefaultConfig) zero_params = Inr M"
    using NeRF_init_built[OF well_configured_sizes[OF wc], of zero_params] by blast
  have "\<exists>out out'. NeRF_forward M (Tensor 6 [[1, 2, 3, 1, 0, 0]]) None False = Inr out
        \<and> NeRF_forward M (Tensor 6 [[1, 2, 3, 0, 0, 1]]) None False = Inr out'
        \<and> map (\<lambda>r. r ! 3) (rows out') = map (\<lambda>r. r ! 3) (rows out)"
    using sigma_ignores_direction[OF wc M, of "Tensor 6 [[1, 2, 3, 1, 0, 0]]" 1
        "Tensor 6 [[1, 2, 3, 0, 0, 1]]" None None] x x'
    by (simp add: i numeral_3_eq_3) blast
  with wc i x x' M show ?thesis by blast
qed


lemma NeRF_forward_input_dir_unused:
  "NeRF_forward M x input_dir sigma_only = NeRF_forward M x input_dir' sigma_only"
  by (auto simp: NeRF_forward_def ebind_def split: sum.splits prod.splits)

section \<open>Inputs of the wrong width\<close>

lemma Mapping_forward_ncols:
  assumes "Mapping_init N c True = Inr m" and "1 \<le> N"
  shows "\<exists>y. Mapping_forward m x = Inr y \<and> ncols y = nat N * (2 * ncols x)"
proof -
  have len: "length (freq_bands m) = nat N"
    using assms(2,1) by (rule Mapping_init_bands)
  with assms(2) have ne: "freq_bands m \<noteq> []" by auto
  have fs: "funcs m = [sin, cos]" using assms(1) by (rule Mapping_init_fields)
  show ?thesis
    using Mapping_forward_rows[OF fs ne, of x] by (simp add: len)
qed

lemma xyz_encoder_ncols:
  assumes "encoders a encs" and "mapping_arg a \<longrightarrow> 1 \<le> mapping_sizes_arg a ! 0"
  shows "\<exists>enc e. py_nth encs 0 = Inr enc \<and> module_forward enc x = Inr e
           \<and> ncols e = (if mapping_arg a then nat (mapping_sizes_arg a ! 0) * (2 * ncols x)
                         else ncols x)"
proof (cases "mapping_arg a")
  case True
  then obtain m0 m1 where e: "encs = [Mapping m0, Mapping m1]"
    and m: "Mapping_init (mapping_sizes_arg a ! 0) (input_sizes_arg a ! 0) True = Inr m0"
    using assms(1) by (auto simp: encoders_def)
  from True assms(2) have "1 \<le> mapping_sizes_arg a ! 0" by simp
  from Mapping_forward_ncols[OF m this, of x] e True show ?thesis by simp
next
  case False
  with assms(1) show ?thesis by (simp add: encoders_def Siren_forward_def)
qed

lemma xyz_width_mismatch:
  assumes wc: "well_configured a" and M: "NeRF_init a \<theta> = Inr M"
    and x: "ncols x \<noteq> nat (input_sizes_arg a ! 0)"
  shows "\<exists>enc e l0. py_nth (mapping M) 0 = Inr enc \<and> module_forward enc x = Inr e
           \<and> ncols e = (if mapping_arg a then nat (mapping_sizes_arg a ! 0) * (2 * ncols x)
                         else ncols x)
           \<and> py_nth (fc_net M) 0 = Inr (Linear l0) \<and> Linear_forward l0 e = Inl ShapeError
           \<and> shared_features M x = Inl ShapeError"
proof -
  have so: "sizes_ok a" and l1: "1 \<le> layers_arg a" and s0: "0 \<notin> set (skips_arg a)"
    and n0: "mapping_arg a \<longrightarrow> 1 \<le> mapping_sizes_arg a ! 0"
    using wc by (auto simp: well_configured_def split: if_splits)
  note f = built_fields[OF so M]
  obtain enc e where enc: "py_nth (mapping M) 0 = Inr enc" "module_forward enc x = Inr e"
    and e: "ncols e = (if mapping_arg a then nat (mapping_sizes_arg a ! 0) * (2 * ncols x)
                       else ncols x)"
    using xyz_encoder_ncols[OF f(4) n0, of x] by blast
  have "ncols e \<noteq> nat (in_size_of a ! 0)"
    using e x n0 in_size_nat(1)[OF so, of 0] by auto
  then have bad: "Linear_forward (trunk_linear \<theta> a 0) e = Inl ShapeError"
    by (simp add: Linear_forward_mismatch trunk_layer_in)
  have l0: "py_nth (fc_net M) 0 = Inr (Linear (trunk_linear \<theta> a 0))"
    by (simp add: f(5))
  have up: "[0..layers_arg a - 1] = 0 # [1..layers_arg a - 1]"
    using l1 by (simp add: upto_rec1)
  have "trunk M e [0..layers_arg a - 1] e = Inl ShapeError"
    unfolding up using s0 l0 bad by (simp add: f(2))
  then have "shared_features M x = Inl ShapeError"
    using enc by (simp add: shared_features_def f(1))
  with enc e l0 bad show ?thesis by blast
qed

lemma forward_width_mismatch:
  assumes wc: "well_configured a" and M: "NeRF_init a \<theta> = Inr M"
    and x: "ncols x \<noteq> nat (if \<not> sigma_only \<and> 0 < input_sizes_arg a ! 1
                              then input_sizes_arg a ! 0 + input_sizes_arg a ! 1
                              else input_sizes_arg a ! 0)"
  shows "NeRF_forward M x input_dir sigma_only = Inl ShapeError"
proof -
  have so: "sizes_ok a" using wc by (rule well_configured_sizes)
  note f = built_fields[OF so M]
  obtain p d where pd: "input_sizes_arg a = [p, d]" "0 \<le> p" "0 \<le> d"
    using so by (rule sizes_ok_lists)
  have isz: "py_nth (input_sizes M) 0 = Inr p" "py_nth (input_sizes M) 1 = Inr d"
    by (simp_all add: f(3) pd)
  show ?thesis
  proof (cases "\<not> sigma_only \<and> 0 < d")
    case True
    with x pd have "ncols x \<noteq> nat (p + d)" by simp
    then have "p + d \<noteq> int (ncols x)" by auto
    then have "split x p d = Inl ShapeError" by (simp add: split_def)
    with True isz show ?thesis by (simp add: NeRF_forward_def)
  next
    case False
    with x pd have "ncols x \<noteq> nat (input_sizes_arg a ! 0)" by auto
    from xyz_width_mismatch[OF wc M this]
    have sh: "shared_features M x = Inl ShapeError" by blast
    show ?thesis
    proof (cases sigma_only)
      case True
      with sh show ?thesis by (simp add: NeRF_forward_sigma_only)
    next
      case s: False
      with False have "\<not> 0 < d" by simp
      with s isz sh show ?thesis by (simp add: NeRF_forward_def)
    qed
  qed
qed

text \<open>
  Claim C9. For a model constructed from well-configured arguments, a call of \<open>forward\<close>
  whose input width differs from the configured one (\<open>input_sizes[0] + input_sizes[1]\<close>
  when colour is asked for and there is a direction branch, \<open>input_sizes[0]\<close> otherwise)
  raises the runtime's size-mismatch error and leaves the object, hence every parameter,
  as it was.
\<close>

theorem NeRF_forward_shape_mismatch:
  assumes "well_configured a" and "NeRF_init a \<theta> = Inr M"
    and "ncols x \<noteq> nat (if \<not> sigma_only \<and> 0 < input_sizes_arg a ! 1
                            then input_sizes_arg a ! 0 + input_sizes_arg a ! 1
                            else input_sizes_arg a ! 0)"
  shows "NeRF_call M x input_dir sigma_only = (Inl ShapeError, M)"
  using forward_width_mismatch[OF assms] by (simp add: NeRF_call_def)

theorem NeRF_forward_shape_mismatch_witness:
  "well_configured (blender DefaultConfig)
   \<and> input_sizes_arg (blender DefaultConfig) = [3, 3]
   \<and> ncols (Tensor 5 [[1, 2, 3, 4, 5]]) \<noteq> 6
   \<and> (\<exists>M. NeRF_init (blender DefaultConfig) zero_params = Inr M
        \<and> NeRF_call M (Tensor 5 [[1, 2, 3, 4, 5]]) None False = (Inl ShapeError, M))"
proof -
  have wc: "well_configured (blender DefaultConfig)" by (rule blender_well_configured)
  have i: "input_sizes_arg (blender DefaultConfig) = [3, 3]"
    by (simp add: blender_def DefaultConfig_def)
  obtain M where M: "NeRF_init (blender DefaultConfig) zero_params = Inr M"
    using NeRF_init_built[OF well_configured_sizes[OF wc], of zero_params] by blast
  have "NeRF_call M (Tensor 5 [[1, 2, 3, 4, 5]]) None False = (Inl ShapeError, M)"
    using NeRF_forward_shape_mismatch[OF wc M, of "Tensor 5 [[1, 2, 3, 4, 5]]" False None]
    by (simp add: i)
  with wc i M show ?thesis by auto
qed

text \<open>
  Claim C10. With a direction branch and \<open>sigma_only\<close>, \<open>forward\<close> does not split: the
  whole input goes through the xyz encoder. Given the full tensor of
  \<open>input_sizes[0] + input_sizes[1]\<close> columns, the encoder succeeds on all of its columns
  and the first \<open>Linear\<close> of the trunk refuses the result, so the call raises the size
  mismatch; given only the xyz columns of the same tensor, the call returns a density of
  shape \<open>(B, 1)\<close>.
\<close>

theorem sigma_only_does_not_split:
  assumes "well_configured a" and "NeRF_init a \<theta> = Inr M"
    and "0 < input_sizes_arg a ! 1"
    and "has_shape x B (nat (input_sizes_arg a ! 0 + input_sizes_arg a ! 1))"
  shows "\<exists>enc e l0 sigma.
            py_nth (mapping M) 0 = Inr enc \<and> module_forward enc x = Inr e
          \<and> ncols e = (if mapping_arg a
                        then nat (mapping_sizes_arg a ! 0)
                               * (2 * nat (input_sizes_arg a ! 0 + input_sizes_arg a ! 1))
                        else nat (input_sizes_arg a ! 0 + input_sizes_arg a ! 1))
          \<and> py_nth (fc_net M) 0 = Inr (Linear l0) \<and> Linear_forward l0 e = Inl ShapeError
          \<and> NeRF_forward M x input_dir True = Inl ShapeError
          \<and> NeRF_forward M (xyz_of a x) input_dir True = Inr sigma \<and> shape sigma = (B, 1)"
proof -
  have so: "sizes_ok a" using assms(1) by (rule well_configured_sizes)
  obtain p d where pd: "input_sizes_arg a = [p, d]" "0 \<le> p" "0 \<le> d"
    using so by (rule sizes_ok_lists)
  have w: "ncols x = nat (input_sizes_arg a ! 0 + input_sizes_arg a ! 1)"
    using assms(4) by (simp add: has_shape_def)
  then have ne: "ncols x \<noteq> nat (input_sizes_arg a ! 0)"
    using assms(3) pd by simp
  obtain enc e l0 where
    enc: "py_nth (mapping M) 0 = Inr enc" "module_forward enc x = Inr e"
      "ncols e = (if mapping_arg a then nat (mapping_sizes_arg a ! 0) * (2 * ncols x)
                  else ncols x)"
      "py_nth (fc_net M) 0 = Inr (Linear l0)" "Linear_forward l0 e = Inl ShapeError"
      "shared_features M x = Inl ShapeError"
    using xyz_width_mismatch[OF assms(1,2) ne] by blast
  have fail: "NeRF_forward M x input_dir True = Inl ShapeError"
    using enc(6) by (simp add: NeRF_forward_sigma_only)
  have xs: "has_shape (xyz_of a x) B (nat (input_sizes_arg a ! 0))"
    using assms(3,4) split_shape(2)[of x B p d] pd by (simp add: xyz_of_def)
  obtain s where s: "shared_features M (xyz_of a x) = Inr s" "has_shape s B (nat (feat_arg a))"
    using shared_features_shape[OF assms(1,2) xs] by blast
  obtain sg where sg: "Sequential_forward (sigma_from_xyz M) s = Inr sg" "has_shape sg B 1"
    using sigma_head_shape[OF so assms(2) s(2)] by blast
  have ok: "NeRF_forward M (xyz_of a x) input_dir True = Inr sg" "shape sg = (B, 1)"
    using s(1) sg by (simp_all add: NeRF_forward_sigma_only has_shape_def shape_def)
  show ?thesis
    using enc(1,2,4,5) enc(3)[unfolded w] fail ok by blast
qed

theorem sigma_only_does_not_split_witness:
  "well_configured (blender DefaultConfig)
   \<and> input_sizes_arg (blender DefaultConfig) = [3, 3]
   \<and> has_shape (Tensor 6 [[1, 2, 3, 0, 0, 1]]) 1 6
   \<and> xyz_of (blender DefaultConfig) (Tensor 6 [[1, 2, 3, 0, 0, 1]]) = Tensor 3 [[1, 2, 3]]
   \<and> (\<exists>M sigma. NeRF_init (blender DefaultConfig) zero_params = Inr M
        \<and> NeRF_forward M (Tensor 6 [[1, 2, 3, 0, 0, 1]]) None True = Inl ShapeError
        \<and> NeRF_forward M (Tensor 3 [[1, 2, 3]]) None True = Inr sigma
        \<and> shape sigma = (1, 1))"
proof -
  have wc: "well_configured (blender DefaultConfig)" by (rule blender_well_configured)
  have i: "input_sizes_arg (blender DefaultConfig) = [3, 3]"
    by (simp add: blender_def DefaultConfig_def)
  have x: "has_shape (Tensor 6 [[1, 2, 3, 0, 0, 1]]) 1 6"
    by (simp add: has_shape_def wf_tensor_def)
  have xz: "xyz_of (blender DefaultConfig) (Tensor 6 [[1, 2, 3, 0, 0, 1]]) = Tensor 3 [[1, 2, 3]]"
    by (simp add: xyz_of_def i)
  obtain M where M: "NeRF_init (blender DefaultConfig) zero_params = Inr M"
    using NeRF_init_built[OF well_configured_sizes[OF wc], of zero_params] by blast
  have "\<exists>sigma. NeRF_forward M (Tensor 6 [[1, 2, 3, 0, 0, 1]]) None True = Inl ShapeError
        \<and> NeRF_forward M (Tensor 3 [[1, 2, 3]]) None True = Inr sigma
        \<and> shape sigma = (1, 1)"
    using sigma_only_does_not_split[OF wc M, of "Tensor 6 [[1, 2, 3, 0, 0, 1]]" 1 None] x
    unfolding xz by (simp add: i) blast
  with wc i x xz M show ?thesis by blast
qed

section \<open>Trunk layers and skip connections\<close>









section \<open>What the constructor checks\<close>





section \<open>The presets and a small model, evaluated\<close>

lemma SNerfBasicConfig_well_configured: "well_configured SNerfBasicConfig"
  by (simp add: well_configured_def sizes_ok_def SNerfBasicConfig_def)

lemma tiny_args_well_configured: "well_configured tiny_args"
  by (simp add: well_configured_def sizes_ok_def tiny_args_def)

lemma tiny_init: "NeRF_init tiny_args zero_params = Inr tiny_model"
  by (simp add: NeRF_init_def Linear_init_def zero_params_def zero_weights_def upto_rec1
      py_nth_def tiny_args_def tiny_model_def zero_linear_def)

lemma tiny_forward:
  "NeRF_forward tiny_model (Tensor 2 [[1, 2]]) None False
     = Inr (Tensor 4 [[1 / 2, 1 / 2, 1 / 2, ln 2]])"
  by (simp add: NeRF_forward_def shared_features_def split_def py_nth_def upto_rec1 cat_def
      Linear_forward_def Siren_forward_def tmap_def relu_def softplus_def sigmoid_def
      numeral_2_eq_2 numeral_3_eq_3 tiny_model_def zero_linear_def)

lemma tiny_forward_sigma_only:
  "NeRF_forward tiny_model (Tensor 1 [[1]]) None True = Inr (Tensor 1 [[ln 2]])"
  by (simp add: NeRF_forward_def shared_features_def py_nth_def upto_rec1 cat_def
      Linear_forward_def Siren_forward_def tmap_def relu_def softplus_def
      numeral_2_eq_2 numeral_3_eq_3 tiny_model_def zero_linear_def)

lemma tiny_forward_full_input_sigma_only:
  "NeRF_forward tiny_model (Tensor 2 [[1, 2]]) None True = Inl ShapeError"
  by (simp add: NeRF_forward_def shared_features_def py_nth_def upto_rec1 cat_def
      Linear_forward_def Siren_forward_def tmap_def relu_def softplus_def
      numeral_2_eq_2 numeral_3_eq_3 tiny_model_def zero_linear_def)

end
